theory Spec2Isabelle
  imports Main "HOL-Library.Word"
begin

section \<open>ThreadSafeQueue (include/thread\_safe\_queue.h)\<close>

text \<open>
  The class holds a \<^verbatim>\<open>std::queue<T> queue_\<close> and a \<^verbatim>\<open>size_t max_size_\<close>
  (0 means unbounded). Every method takes the mutex for its whole body, so a method is
  one atomic step on the pair of fields. The queue's size is a count of elements and
  is compared with \<open>max_size_\<close> only, so \<open>nat\<close> stands for \<^verbatim>\<open>size_t\<close>.
  The front of \<open>queue_\<close> is the head of the list, \<^verbatim>\<open>queue_.push\<close> appends.
  Member names are written without their trailing underscore.
\<close>

record 'a ThreadSafeQueue =
  queue :: "'a list"
  maxsize :: nat

definition ThreadSafeQueue_ctor :: "nat \<Rightarrow> 'a ThreadSafeQueue" where
  "ThreadSafeQueue_ctor max_size = \<lparr>queue = [], maxsize = max_size\<rparr>"

definition try_push :: "'a \<Rightarrow> 'a ThreadSafeQueue \<Rightarrow> bool \<times> 'a ThreadSafeQueue" where
  "try_push v q =
     (if maxsize q > 0 \<and> length (queue q) \<ge> maxsize q then (False, q)
      else (True, q\<lparr>queue := queue q @ [v]\<rparr>))"

definition push :: "'a \<Rightarrow> 'a ThreadSafeQueue \<Rightarrow> 'a ThreadSafeQueue" where
  "push v q = (case try_push v q of (ok, q') \<Rightarrow> if \<not> ok then q' else q')"

definition try_pop :: "'a ThreadSafeQueue \<Rightarrow> 'a option \<times> 'a ThreadSafeQueue" where
  "try_pop q =
     (if queue q = [] then (None, q)
      else (Some (hd (queue q)), q\<lparr>queue := tl (queue q)\<rparr>))"

definition empty_q :: "'a ThreadSafeQueue \<Rightarrow> bool" where
  "empty_q q = (queue q = [])"

definition size_q :: "'a ThreadSafeQueue \<Rightarrow> nat" where
  "size_q q = length (queue q)"

subsection \<open>Waiting on the condition variable\<close>

text \<open>
  While a thread waits on \<open>condition_\<close> the mutex is released and other threads run
  queue methods. What they do to the queue in that time is an input of the model: a
  list of completed pushes and pops of other threads.
\<close>

datatype 'a env_op = EnvPush 'a | EnvPop

fun env_step :: "'a env_op \<Rightarrow> 'a ThreadSafeQueue \<Rightarrow> 'a ThreadSafeQueue" where
  "env_step (EnvPush v) q = snd (try_push v q)"
| "env_step EnvPop q = snd (try_pop q)"

fun interfere :: "'a env_op list \<Rightarrow> 'a ThreadSafeQueue \<Rightarrow> 'a ThreadSafeQueue" where
  "interfere [] q = q"
| "interfere (e # es) q = interfere es (env_step e q)"

text \<open>
  \<^verbatim>\<open>condition_.wait(lock, pred)\<close> is \<^verbatim>\<open>while (!pred()) wait(lock);\<close>. Each element of
  the schedule is what the other threads did before one wake-up. When the schedule is
  used up and the queue is still empty the caller is still blocked: \<open>None\<close>.
\<close>

fun cv_wait :: "'a env_op list list \<Rightarrow> 'a ThreadSafeQueue \<Rightarrow> 'a ThreadSafeQueue option" where
  "cv_wait [] q = (if queue q \<noteq> [] then Some q else None)"
| "cv_wait (e # rest) q = (if queue q \<noteq> [] then Some q else cv_wait rest (interfere e q))"

definition wait_and_pop ::
  "'a env_op list list \<Rightarrow> 'a ThreadSafeQueue \<Rightarrow> ('a \<times> 'a ThreadSafeQueue) option" where
  "wait_and_pop sched q =
     (case cv_wait sched q of
        None \<Rightarrow> None
      | Some q' \<Rightarrow> Some (hd (queue q'), q'\<lparr>queue := tl (queue q')\<rparr>))"

text \<open>
  \<^verbatim>\<open>condition_.wait_for(lock, rel_time, pred)\<close> is
  \<^verbatim>\<open>while (!pred()) if (wait_until(lock, t) == timeout) return pred(); return true;\<close>.
  The schedule lists what the other threads did before each wake-up that came before
  the deadline; \<open>final\<close> is what they did before the wake-up at the deadline. The call
  always returns, with the value of the predicate under the re-acquired mutex.
\<close>

fun cv_wait_for ::
  "'a env_op list list \<Rightarrow> 'a env_op list \<Rightarrow> 'a ThreadSafeQueue \<Rightarrow> bool \<times> 'a ThreadSafeQueue" where
  "cv_wait_for [] final q =
     (if queue q \<noteq> [] then (True, q)
      else (queue (interfere final q) \<noteq> [], interfere final q))"
| "cv_wait_for (e # rest) final q =
     (if queue q \<noteq> [] then (True, q) else cv_wait_for rest final (interfere e q))"

definition wait_for_and_pop ::
  "'a env_op list list \<Rightarrow> 'a env_op list \<Rightarrow> 'a ThreadSafeQueue
     \<Rightarrow> 'a option \<times> 'a ThreadSafeQueue" where
  "wait_for_and_pop sched final q =
     (case cv_wait_for sched final q of (woken, q') \<Rightarrow>
        if \<not> woken then (None, q')
        else (Some (hd (queue q')), q'\<lparr>queue := tl (queue q')\<rparr>))"

text \<open>The operations of other threads that took place before the wait returned.\<close>

fun observed :: "'a env_op list list \<Rightarrow> 'a env_op list \<Rightarrow> 'a ThreadSafeQueue \<Rightarrow> 'a env_op list" where
  "observed [] final q = (if queue q \<noteq> [] then [] else final)"
| "observed (e # rest) final q =
     (if queue q \<noteq> [] then [] else e @ observed rest final (interfere e q))"

subsection \<open>Histories of queue operations\<close>

text \<open>
  A history is the sequence of completed method calls of all threads, in the order in
  which they held the mutex. A blocking pop that is still waiting has had no effect.
\<close>

datatype 'a queue_op = TryPush 'a | Push 'a | WaitAndPop | TryPop | WaitForAndPop

fun exec_op :: "'a queue_op \<Rightarrow> 'a ThreadSafeQueue \<Rightarrow> 'a ThreadSafeQueue" where
  "exec_op (TryPush v) q = snd (try_push v q)"
| "exec_op (Push v) q = push v q"
| "exec_op WaitAndPop q = (case wait_and_pop [] q of None \<Rightarrow> q | Some (v, q') \<Rightarrow> q')"
| "exec_op TryPop q = snd (try_pop q)"
| "exec_op WaitForAndPop q = snd (wait_for_and_pop [] [] q)"

fun run_ops :: "'a queue_op list \<Rightarrow> 'a ThreadSafeQueue \<Rightarrow> 'a ThreadSafeQueue" where
  "run_ops [] q = q"
| "run_ops (op # ops) q = run_ops ops (exec_op op q)"

text \<open>Offering a list of chunks one after the other, and popping \<open>n\<close> times.\<close>

fun offers :: "'a list \<Rightarrow> 'a ThreadSafeQueue \<Rightarrow> bool list \<times> 'a ThreadSafeQueue" where
  "offers [] q = ([], q)"
| "offers (x # xs) q =
     (case try_push x q of (ok, q') \<Rightarrow>
        case offers xs q' of (oks, q'') \<Rightarrow> (ok # oks, q''))"

datatype pop_kind = Blocking | NonBlocking | Timed

fun pop_with :: "pop_kind \<Rightarrow> 'a ThreadSafeQueue \<Rightarrow> 'a option \<times> 'a ThreadSafeQueue" where
  "pop_with Blocking q =
     (case wait_and_pop [] q of None \<Rightarrow> (None, q) | Some (v, q') \<Rightarrow> (Some v, q'))"
| "pop_with NonBlocking q = try_pop q"
| "pop_with Timed q = wait_for_and_pop [] [] q"

fun pops :: "pop_kind \<Rightarrow> nat \<Rightarrow> 'a ThreadSafeQueue \<Rightarrow> 'a option list \<times> 'a ThreadSafeQueue" where
  "pops k 0 q = ([], q)"
| "pops k (Suc n) q =
     (case pop_with k q of (r, q') \<Rightarrow>
        case pops k n q' of (rs, q'') \<Rightarrow> (r # rs, q''))"

section \<open>Logger (include/logger.h)\<close>

text \<open>
  \<^verbatim>\<open>enum class LogLevel { DEBUG, INFO, WARNING, ERROR, NONE }\<close>. The macros
  \<^verbatim>\<open>LOG_DEBUG\<close>, \<^verbatim>\<open>LOG_INFO\<close>, \<^verbatim>\<open>LOG_WARN\<close> and \<^verbatim>\<open>LOG_ERROR\<close> call
  \<^verbatim>\<open>logger::log(level, ...)\<close>, which writes the line when
  \<^verbatim>\<open>level >= current_log_level\<close>. A log call is recorded as an effect with its level
  and the first string literal of its arguments; \<open>emitted\<close> is the threshold of
  \<^verbatim>\<open>logger::log\<close> applied to the recorded calls.
\<close>

datatype LogLevel = DEBUG | INFO | WARNING | ERROR | NONE

fun level_rank :: "LogLevel \<Rightarrow> nat" where
  "level_rank DEBUG = 0"
| "level_rank INFO = 1"
| "level_rank WARNING = 2"
| "level_rank ERROR = 3"
| "level_rank NONE = 4"

text \<open>
  What the program does to the outside, in the order in which it does it: log calls,
  calls of libhackrf and libmosquitto, the store that clears the publisher's run flag,
  and the start and the join of the publisher thread.
\<close>

datatype lib_call =
    Hackrf_init | Hackrf_open | Hackrf_close | Hackrf_exit
  | Hackrf_set string
  | Hackrf_start_rx | Hackrf_stop_rx
  | Mosq_loop_start | Mosq_connect_async | Mosq_loop_stop | Mosq_disconnect
  | Mosq_subscribe string int
  | Mosq_publish string "8 word list" int bool

datatype effect =
    Log LogLevel string
  | Call lib_call
  | Store_publisher_should_run bool
  | Thread_start
  | Thread_join

definition emitted :: "LogLevel \<Rightarrow> effect list \<Rightarrow> effect list" where
  "emitted current_log_level es =
     filter (\<lambda>e. case e of Log l m \<Rightarrow> level_rank l \<ge> level_rank current_log_level | _ \<Rightarrow> False) es"

section \<open>HackRFHandler (src/hackrf\_handler.cpp)\<close>

text \<open>
  libhackrf is an external library. Its device object is taken by what the handler
  reads of it: whether \<^verbatim>\<open>hackrf_is_streaming\<close> answers \<^verbatim>\<open>HACKRF_TRUE\<close>. The result
  code of each library call is an input of the model. A successful
  \<^verbatim>\<open>hackrf_start_rx\<close> makes the device stream, a successful \<^verbatim>\<open>hackrf_stop_rx\<close>
  stops it, a failed call leaves the device as it was.
\<close>

definition HACKRF_SUCCESS :: int where
  "HACKRF_SUCCESS = 0"

record hackrf_device =
  transfer_active :: bool

type_synonym ptr = nat

text \<open>
  The members \<^verbatim>\<open>device_\<close> (a pointer, \<open>None\<close> for \<^verbatim>\<open>nullptr\<close>), \<^verbatim>\<open>streaming_\<close> and
  \<^verbatim>\<open>rx_callback_context_\<close> (a pointer to the queue, \<open>None\<close> for \<^verbatim>\<open>nullptr\<close>).
\<close>

record HackRFHandler =
  device :: "hackrf_device option"
  streaming :: bool
  rx_callback_context :: "ptr option"

definition HackRFHandler_ctor :: HackRFHandler where
  "HackRFHandler_ctor = \<lparr>device = None, streaming = False, rx_callback_context = None\<rparr>"

definition init ::
  "int \<Rightarrow> int \<Rightarrow> hackrf_device option \<Rightarrow> HackRFHandler \<Rightarrow> bool \<times> HackRFHandler \<times> effect list" where
  "init init_result open_result opened h =
     (if device h \<noteq> None then (True, h, [Log WARNING ''HackRF already initialized.''])
      else if init_result \<noteq> HACKRF_SUCCESS then
        (False, h,
         [Call Hackrf_init, Log ERROR ''Failed to initialize HackRF library: ''])
      else if open_result \<noteq> HACKRF_SUCCESS \<or> opened = None then
        (False, h\<lparr>device := None\<rparr>,
         [Call Hackrf_init, Call Hackrf_open, Log ERROR ''Failed to open HackRF device: '',
          Call Hackrf_exit])
      else
        (True, h\<lparr>device := opened\<rparr>,
         [Call Hackrf_init, Call Hackrf_open, Log INFO ''HackRF device opened successfully.'']))"

definition is_streaming :: "HackRFHandler \<Rightarrow> bool" where
  "is_streaming h = (case device h of None \<Rightarrow> False | Some d \<Rightarrow> transfer_active d)"

definition start_rx ::
  "ptr option \<Rightarrow> int \<Rightarrow> HackRFHandler \<Rightarrow> bool \<times> HackRFHandler \<times> effect list" where
  "start_rx callback_context result h =
     (case device h of
        None \<Rightarrow> (False, h, [Log ERROR ''HackRF device not initialized. Cannot start RX.''])
      | Some d \<Rightarrow>
          if streaming h then
            (False, h, [Log WARNING ''HackRF is already streaming. Start RX request ignored.''])
          else if result \<noteq> HACKRF_SUCCESS then
            (False, h\<lparr>rx_callback_context := callback_context\<rparr>,
             [Call Hackrf_start_rx, Log ERROR ''Failed to start RX streaming: ''])
          else
            (True,
             h\<lparr>rx_callback_context := callback_context,
                device := Some (d\<lparr>transfer_active := True\<rparr>),
                streaming := True\<rparr>,
             [Call Hackrf_start_rx, Log INFO ''HackRF RX streaming started.'']))"

definition stop_rx :: "int \<Rightarrow> HackRFHandler \<Rightarrow> bool \<times> HackRFHandler \<times> effect list" where
  "stop_rx result h =
     (case device h of
        None \<Rightarrow>
          (False, h, [Log WARNING ''HackRF not streaming or not initialized. Stop RX request ignored.''])
      | Some d \<Rightarrow>
          if \<not> streaming h then
            (False, h, [Log WARNING ''HackRF not streaming or not initialized. Stop RX request ignored.''])
          else if result \<noteq> HACKRF_SUCCESS then
            (False, h\<lparr>streaming := False\<rparr>,
             [Call Hackrf_stop_rx, Log ERROR ''Failed to stop RX streaming: ''])
          else
            (True,
             h\<lparr>device := Some (d\<lparr>transfer_active := False\<rparr>),
                streaming := False,
                rx_callback_context := None\<rparr>,
             [Call Hackrf_stop_rx, Log INFO ''HackRF RX streaming stopped.'']))"

definition deinit :: "int \<Rightarrow> HackRFHandler \<Rightarrow> HackRFHandler \<times> effect list" where
  "deinit stop_result h =
     (case (if streaming h then (case stop_rx stop_result h of (r, h', e) \<Rightarrow> (h', e)) else (h, []))
      of (h1, e1) \<Rightarrow>
        case (if device h1 \<noteq> None
              then (h1\<lparr>device := None\<rparr>, [Call Hackrf_close, Log INFO ''HackRF device closed.''])
              else (h1, []))
        of (h2, e2) \<Rightarrow>
          (h2, e1 @ e2 @ [Call Hackrf_exit, Log INFO ''HackRF library deinitialized.'']))"

text \<open>
  The five setters \<^verbatim>\<open>set_frequency\<close>, \<^verbatim>\<open>set_sample_rate\<close>,
  \<^verbatim>\<open>set_baseband_filter_bandwidth\<close>, \<^verbatim>\<open>set_lna_gain\<close> and \<^verbatim>\<open>set_vga_gain\<close> have one
  shape; \<open>what\<close> names the parameter. They do not change the handler.
\<close>

definition set_param :: "string \<Rightarrow> int \<Rightarrow> HackRFHandler \<Rightarrow> bool \<times> effect list" where
  "set_param what result h =
     (if device h = None then
        (False, [Log ERROR (''HackRF device not initialized. Cannot set '' @ what)])
      else if result \<noteq> HACKRF_SUCCESS then
        (False, [Call (Hackrf_set what), Log ERROR (''Failed to set '' @ what)])
      else (True, [Call (Hackrf_set what), Log INFO (''HackRF '' @ what @ '' set'')]))"

section \<open>MqttClient (src/mqtt\_client.cpp)\<close>

text \<open>
  libmosquitto is an external library; the result code of each of its calls is an
  input. Of the members, \<^verbatim>\<open>connected_flag_\<close> and the control topic are kept.
\<close>

definition MOSQ_ERR_SUCCESS :: int where
  "MOSQ_ERR_SUCCESS = 0"

definition MOSQ_ERR_NO_CONN :: int where
  "MOSQ_ERR_NO_CONN = 4"

definition MOSQ_ERR_CONN_LOST :: int where
  "MOSQ_ERR_CONN_LOST = 7"

record MqttClient =
  connected_flag :: bool
  control_topic_str :: string
  control_topic_qos :: int

definition MqttClient_ctor :: MqttClient where
  "MqttClient_ctor = \<lparr>connected_flag = False, control_topic_str = [], control_topic_qos = 0\<rparr>"

definition is_connected :: "MqttClient \<Rightarrow> bool" where
  "is_connected c = connected_flag c"

definition connect_to_broker :: "int \<Rightarrow> int \<Rightarrow> MqttClient \<Rightarrow> bool \<times> effect list" where
  "connect_to_broker loop_rc connect_rc c =
     (if connected_flag c then
        (True, [Log INFO ''MQTT: Already connected or attempting to connect.''])
      else if loop_rc \<noteq> MOSQ_ERR_SUCCESS then
        (False, [Call Mosq_loop_start, Log ERROR ''MQTT: Error starting network loop: ''])
      else if connect_rc \<noteq> MOSQ_ERR_SUCCESS then
        (False,
         [Call Mosq_loop_start, Call Mosq_connect_async,
          Log ERROR ''MQTT: Error initiating connection: '', Call Mosq_loop_stop])
      else
        (True,
         [Call Mosq_loop_start, Call Mosq_connect_async,
          Log INFO ''MQTT: Attempting to connect to '']))"

definition disconnect_from_broker :: "int \<Rightarrow> MqttClient \<Rightarrow> bool \<times> effect list" where
  "disconnect_from_broker rc c =
     (if rc \<noteq> MOSQ_ERR_SUCCESS then
        (False,
         (if \<not> connected_flag c \<and> \<not> is_connected c
          then [Log INFO ''MQTT: Already disconnected.''] else [])
         @ [Call Mosq_disconnect, Log ERROR ''MQTT: Error disconnecting: ''])
      else
        (True,
         (if \<not> connected_flag c \<and> \<not> is_connected c
          then [Log INFO ''MQTT: Already disconnected.''] else [])
         @ [Call Mosq_disconnect, Log INFO ''MQTT: Disconnect initiated.'']))"

definition publish_message ::
  "string \<Rightarrow> 8 word list \<Rightarrow> int \<Rightarrow> bool \<Rightarrow> int \<Rightarrow> MqttClient \<Rightarrow> int \<times> effect list" where
  "publish_message topic payload qos retain rc c =
     (if \<not> connected_flag c then
        (MOSQ_ERR_NO_CONN, [Log WARNING ''MQTT: Not connected. Cannot publish message to topic''])
      else if rc \<noteq> MOSQ_ERR_SUCCESS then
        (rc, [Call (Mosq_publish topic payload qos retain),
              Log ERROR ''MQTT: Error publishing message to topic''])
      else
        (rc, [Call (Mosq_publish topic payload qos retain),
              Log DEBUG ''MQTT: Published message to topic'']))"

definition on_connect :: "int \<Rightarrow> int \<Rightarrow> MqttClient \<Rightarrow> MqttClient \<times> effect list" where
  "on_connect rc sub_rc c =
     (if rc = 0 then
        (c\<lparr>connected_flag := True\<rparr>,
         [Log INFO ''MQTT: Connected to broker successfully.''] @
         (if control_topic_str c \<noteq> [] then
            [Call (Mosq_subscribe (control_topic_str c) (control_topic_qos c))] @
            (if sub_rc \<noteq> MOSQ_ERR_SUCCESS
             then [Log ERROR ''MQTT: Error subscribing to control topic''] else [])
          else []))
      else (c\<lparr>connected_flag := False\<rparr>, [Log ERROR ''MQTT: Connection failed: '']))"

definition on_disconnect :: "int \<Rightarrow> MqttClient \<Rightarrow> MqttClient \<times> effect list" where
  "on_disconnect rc c =
     (c\<lparr>connected_flag := False\<rparr>, [Log INFO ''MQTT: Disconnected from broker (rc: ''])"

section \<open>The application (src/main.cpp)\<close>

subsection \<open>Producer: the capture callback\<close>

text \<open>
  Of \<^verbatim>\<open>hackrf_transfer\<close> the callback reads \<^verbatim>\<open>buffer\<close>, \<^verbatim>\<open>valid_length\<close> (a C
  \<^verbatim>\<open>int\<close>) and \<^verbatim>\<open>rx_ctx\<close>. The field \<open>rx_ctx\<close> of the model is the queue that the
  pointer points to, \<open>None\<close> for a null pointer; the callback returns it as it leaves
  it. The chunk is the first \<open>valid_length\<close> bytes of the buffer (libhackrf gives
  \<open>valid_length\<close> no larger than the buffer). \<^verbatim>\<open>keep_running\<close> is the global
  \<^verbatim>\<open>sig_atomic_t\<close>, 1 at start and 0 once shutdown is requested.
\<close>

type_synonym chunk = "8 word list"

record hackrf_transfer =
  buffer :: "8 word list"
  valid_length :: int
  rx_ctx :: "chunk ThreadSafeQueue option"

definition hackrf_rx_callback ::
  "int \<Rightarrow> hackrf_transfer \<Rightarrow> int \<times> chunk ThreadSafeQueue option \<times> effect list" where
  "hackrf_rx_callback keep_running transfer =
     (if keep_running = 0 then (- 1, rx_ctx transfer, [])
      else
        case rx_ctx transfer of
          None \<Rightarrow> (0, None, [])
        | Some data_queue \<Rightarrow>
            if valid_length transfer > 0 then
              (case try_push (take (nat (valid_length transfer)) (buffer transfer)) data_queue of
                 (pushed, data_queue') \<Rightarrow>
                   if \<not> pushed then
                     (0, Some data_queue',
                      [Log WARNING ''IQ data queue full, discarding data chunk of size ''])
                   else (0, Some data_queue', []))
            else (0, Some data_queue, []))"

subsection \<open>Consumer: the publisher thread\<close>

record MqttConfig =
  topic :: string
  control_topic :: string
  qos :: int

text \<open>
  One pass through the body of the loop. Its inputs are what the other threads do to
  the queue while the consumer waits, the client as the network thread has left it,
  and the result code of \<^verbatim>\<open>mosquittopp::publish\<close>.
\<close>

record iteration_input =
  wake_sched :: "chunk env_op list list"
  wake_final :: "chunk env_op list"
  client :: MqttClient
  publish_rc :: int

definition publisher_iteration ::
  "MqttConfig \<Rightarrow> iteration_input \<Rightarrow> chunk ThreadSafeQueue \<Rightarrow> chunk ThreadSafeQueue \<times> effect list" where
  "publisher_iteration mqtt_config i data_queue =
     (case wait_for_and_pop (wake_sched i) (wake_final i) data_queue of
        (None, data_queue') \<Rightarrow> (data_queue', [])
      | (Some data_chunk, data_queue') \<Rightarrow>
          if is_connected (client i) then
            (case publish_message (topic mqtt_config) data_chunk (qos mqtt_config) False
                    (publish_rc i) (client i) of
               (rc, e) \<Rightarrow>
                 (data_queue',
                  e @ (if rc \<noteq> MOSQ_ERR_SUCCESS then
                         [Log ERROR ''MQTT Publish error in publisher thread: ''] @
                         (if rc = MOSQ_ERR_NO_CONN \<or> rc = MOSQ_ERR_CONN_LOST
                          then [Log WARNING ''MQTT disconnected, publisher thread may pause.'']
                          else [])
                       else [])))
          else
            (data_queue',
             [Log DEBUG ''MQTT not connected in publisher thread, discarding data chunk if any was popped.'']))"

text \<open>
  The loop \<^verbatim>\<open>while (should_run.load())\<close>. Each element of the schedule is the value
  of the flag read at the head of the loop and the inputs of the pass that follows. The
  thread is still running when the schedule is used up: \<open>None\<close>.
\<close>

fun publisher_loop ::
  "MqttConfig \<Rightarrow> (bool \<times> iteration_input) list \<Rightarrow> chunk ThreadSafeQueue
     \<Rightarrow> (chunk ThreadSafeQueue \<times> effect list) option" where
  "publisher_loop mqtt_config [] data_queue = None"
| "publisher_loop mqtt_config ((should_run, i) # rest) data_queue =
     (if should_run then
        (case publisher_iteration mqtt_config i data_queue of
           (data_queue', e) \<Rightarrow>
             (case publisher_loop mqtt_config rest data_queue' of
                None \<Rightarrow> None
              | Some (data_queue'', e') \<Rightarrow> Some (data_queue'', e @ e')))
      else Some (data_queue, []))"

definition mqtt_publisher_thread_func ::
  "MqttConfig \<Rightarrow> (bool \<times> iteration_input) list \<Rightarrow> chunk ThreadSafeQueue
     \<Rightarrow> (chunk ThreadSafeQueue \<times> effect list) option" where
  "mqtt_publisher_thread_func mqtt_config sched data_queue =
     (case publisher_loop mqtt_config sched data_queue of
        None \<Rightarrow> None
      | Some (data_queue', e) \<Rightarrow>
          Some (data_queue',
                [Log INFO ''MQTT Publisher thread started.''] @ e @
                [Log INFO ''MQTT Publisher thread stopping.'']))"

subsection \<open>The state that main and the control handler share\<close>

text \<open>
  The global \<^verbatim>\<open>keep_running\<close>, the locals of \<^verbatim>\<open>main\<close> that the lambda captures by
  reference, and whether \<^verbatim>\<open>publisher_thread\<close> is joinable.
\<close>

record app_state =
  keep_running :: int
  publisher_should_run :: bool
  hackrf_should_be_streaming :: bool
  hackrf_handler :: HackRFHandler
  mqtt_client :: MqttClient
  publisher_joinable :: bool

subsection \<open>Control dispatcher\<close>

text \<open>
  The lambda \<^verbatim>\<open>control_command_handler\<close>. \<open>result\<close> is the result code of the one
  libhackrf call that a command can lead to; \<open>queue_addr\<close> is the address of the data queue.
\<close>

definition control_command_handler ::
  "string \<Rightarrow> int \<Rightarrow> ptr \<Rightarrow> app_state \<Rightarrow> app_state \<times> effect list" where
  "control_command_handler payload result queue_addr s =
     (if payload = ''PAUSE'' then
        if hackrf_should_be_streaming s \<and> is_streaming (hackrf_handler s) then
          (case stop_rx result (hackrf_handler s) of
             (r, h', e) \<Rightarrow>
               (s\<lparr>hackrf_handler := h', hackrf_should_be_streaming := False\<rparr>,
                [Log INFO ''Control command received: '',
                 Log INFO ''Pausing HackRF stream via MQTT command.''] @ e))
        else
          (s, [Log INFO ''Control command received: '',
               Log INFO ''HackRF already paused or not streaming. 'PAUSE' command ignored.''])
      else if payload = ''RESUME'' then
        if \<not> hackrf_should_be_streaming s \<and> \<not> is_streaming (hackrf_handler s) then
          (case start_rx (Some queue_addr) result (hackrf_handler s) of
             (started, h', e) \<Rightarrow>
               if started then
                 (s\<lparr>hackrf_handler := h', hackrf_should_be_streaming := True\<rparr>,
                  [Log INFO ''Control command received: '',
                   Log INFO ''Resuming HackRF stream via MQTT command.''] @ e)
               else
                 (s\<lparr>hackrf_handler := h'\<rparr>,
                  [Log INFO ''Control command received: '',
                   Log INFO ''Resuming HackRF stream via MQTT command.''] @ e @
                  [Log ERROR ''Failed to resume HackRF stream via MQTT command.'']))
        else
          (s, [Log INFO ''Control command received: '',
               Log INFO ''HackRF already streaming or not in a state to resume. 'RESUME' command ignored.''])
      else
        (s, [Log INFO ''Control command received: '',
             Log WARNING ''Unknown control command received: '']))"

text \<open>
  \<^verbatim>\<open>main\<close> passes \<^verbatim>\<open>&iq_data_queue\<close> to every \<^verbatim>\<open>start_rx\<close>; the address is a
  fixed non-null value.
\<close>

definition iq_data_queue_addr :: ptr where
  "iq_data_queue_addr = 1"

text \<open>
  The handler as the first \<^verbatim>\<open>start_rx\<close> of \<^verbatim>\<open>main\<close> leaves it when the call succeeds
  (main.cpp, line 250), and the states that the dispatcher reaches from there: a list of
  control commands, each with the result code of the library call it may lead to.
\<close>

definition started_handler :: HackRFHandler where
  "started_handler =
     \<lparr>device = Some \<lparr>transfer_active = True\<rparr>, streaming = True,
      rx_callback_context = Some iq_data_queue_addr\<rparr>"


text \<open>
  \<^verbatim>\<open>MqttClient::on_message\<close> for a message with a topic: the payload goes to the
  control handler when a control topic is set and the message is on it. \<^verbatim>\<open>main\<close> sets
  the callback exactly when it sets a control topic.
\<close>

definition on_message ::
  "string \<Rightarrow> string \<Rightarrow> int \<Rightarrow> ptr \<Rightarrow> app_state \<Rightarrow> app_state \<times> effect list" where
  "on_message topic_str payload_str result queue_addr s =
     (if control_topic_str (mqtt_client s) \<noteq> [] \<and> topic_str = control_topic_str (mqtt_client s) then
        (case control_command_handler payload_str result queue_addr s of
           (s', e) \<Rightarrow>
             (s', [Log DEBUG ''MQTT: Message received on topic'',
                   Log INFO ''MQTT: Control command received on topic''] @ e))
      else
        (s, [Log DEBUG ''MQTT: Message received on topic'',
             Log DEBUG ''MQTT: Message on non-control topic'']))"

subsection \<open>Events of the other threads\<close>

text \<open>
  While \<^verbatim>\<open>main\<close> sleeps, a signal may arrive and the network thread of libmosquitto
  may call \<^verbatim>\<open>on_connect\<close>, \<^verbatim>\<open>on_disconnect\<close> or \<^verbatim>\<open>on_message\<close>. The events that
  arrive during each sleep are an input of the model.
\<close>

datatype async_event =
    Signal int
  | Net_connect int int
  | Net_disconnect int
  | Net_message string string int

definition SIGINT :: int where
  "SIGINT = 2"

definition SIGTERM :: int where
  "SIGTERM = 15"

definition signal_handler :: "int \<Rightarrow> app_state \<Rightarrow> app_state \<times> effect list" where
  "signal_handler signal_num s =
     (if signal_num = SIGINT \<or> signal_num = SIGTERM then
        (s\<lparr>keep_running := 0\<rparr>, [Log INFO ''Signal ''])
      else (s, []))"

fun deliver_event :: "async_event \<Rightarrow> app_state \<Rightarrow> app_state \<times> effect list" where
  "deliver_event (Signal signal_num) s = signal_handler signal_num s"
| "deliver_event (Net_connect rc sub_rc) s =
     (case on_connect rc sub_rc (mqtt_client s) of (c, e) \<Rightarrow> (s\<lparr>mqtt_client := c\<rparr>, e))"
| "deliver_event (Net_disconnect rc) s =
     (case on_disconnect rc (mqtt_client s) of (c, e) \<Rightarrow> (s\<lparr>mqtt_client := c\<rparr>, e))"
| "deliver_event (Net_message topic_str payload_str result) s =
     on_message topic_str payload_str result iq_data_queue_addr s"

fun deliver :: "async_event list \<Rightarrow> app_state \<Rightarrow> app_state \<times> effect list" where
  "deliver [] s = (s, [])"
| "deliver (a # as) s =
     (case deliver_event a s of (s1, e1) \<Rightarrow>
        case deliver as s1 of (s2, e2) \<Rightarrow> (s2, e1 @ e2))"

subsection \<open>main, from the construction of the handler and the client on\<close>

text \<open>
  The configuration is taken as loaded. The inputs of \<^verbatim>\<open>main\<close> are the result codes of
  the library calls it makes, the events that arrive during each sleep of the two
  loops, and whether an exception comes out of a pass of the supervisory loop. A
  device that \<^verbatim>\<open>hackrf_open\<close> has just opened is not streaming.
\<close>

record AppConfig =
  mqtt :: MqttConfig
  data_queue_max_size :: nat

datatype tick = Sleep "async_event list" | Throw_std_exception | Throw_unknown

record main_env =
  hackrf_init_result :: int
  hackrf_open_result :: int
  hackrf_open_nonnull :: bool
  set_frequency_result :: int
  set_sample_rate_result :: int
  set_baseband_filter_bandwidth_result :: int
  set_lna_gain_result :: int
  set_vga_gain_result :: int
  loop_start_result :: int
  connect_async_result :: int
  connect_wait_events :: "async_event list list"
  start_rx_result :: int
  supervise :: "tick list"
  stop_rx_result :: int
  disconnect_result :: int

definition set_control_topic :: "string \<Rightarrow> int \<Rightarrow> int \<Rightarrow> MqttClient \<Rightarrow> MqttClient \<times> effect list" where
  "set_control_topic topic_str qos_val sub_rc c =
     (c\<lparr>control_topic_str := topic_str, control_topic_qos := qos_val\<rparr>,
      (if connected_flag c \<and> topic_str \<noteq> [] then
         [Call (Mosq_subscribe topic_str qos_val)] @
         (if sub_rc \<noteq> MOSQ_ERR_SUCCESS
          then [Log ERROR ''MQTT: Error subscribing to control topic''] else [])
       else []))"

text \<open>\<^verbatim>\<open>if (publisher_thread.joinable()) publisher_thread.join();\<close>\<close>

definition join_publisher :: "app_state \<Rightarrow> app_state \<times> effect list" where
  "join_publisher s =
     (if publisher_joinable s then (s\<lparr>publisher_joinable := False\<rparr>, [Thread_join]) else (s, []))"

text \<open>
  The loop that waits for the connection, at most 5000 ms in sleeps of 100 ms. When
  the list of events is used up, nothing more arrives.
\<close>

function connect_wait :: "async_event list list \<Rightarrow> int \<Rightarrow> app_state \<Rightarrow> app_state \<times> effect list" where
  "connect_wait evs time_waited_ms s =
     (if \<not> is_connected (mqtt_client s) \<and> time_waited_ms < 5000 \<and> keep_running s = 1 then
        (case deliver (case evs of [] \<Rightarrow> [] | ev # rest \<Rightarrow> ev) s of
           (s', e) \<Rightarrow>
             case connect_wait (tl evs) (time_waited_ms + 100) s' of
               (s'', e') \<Rightarrow> (s'', e @ e'))
      else (s, []))"
  by pat_completeness auto
termination
  by (relation "measure (\<lambda>(evs, t, s). nat (5000 - t))") auto

declare connect_wait.simps [simp del]

text \<open>
  The supervisory loop \<^verbatim>\<open>while (keep_running == 1)\<close>, with the two catch clauses that
  follow the try block. \<open>None\<close>: the list of ticks is used up and the loop still runs.
\<close>

fun supervisory_loop :: "tick list \<Rightarrow> app_state \<Rightarrow> (app_state \<times> effect list) option" where
  "supervisory_loop [] s =
     (if keep_running s = 1 then
        if \<not> is_connected (mqtt_client s) then
          Some (s\<lparr>keep_running := 0\<rparr>,
                [Log ERROR ''MQTT client disconnected. Shutting down application.''])
        else None
      else Some (s, []))"
| "supervisory_loop (t # rest) s =
     (if keep_running s = 1 then
        if \<not> is_connected (mqtt_client s) then
          Some (s\<lparr>keep_running := 0\<rparr>,
                [Log ERROR ''MQTT client disconnected. Shutting down application.''])
        else
          (case t of
             Sleep evs \<Rightarrow>
               (case deliver evs s of
                  (s', e) \<Rightarrow>
                    (case supervisory_loop rest s' of
                       None \<Rightarrow> None
                     | Some (s'', e') \<Rightarrow> Some (s'', e @ e')))
           | Throw_std_exception \<Rightarrow>
               Some (s\<lparr>keep_running := 0\<rparr>,
                     [Log ERROR ''An unhandled std::exception occurred in main: ''])
           | Throw_unknown \<Rightarrow>
               Some (s\<lparr>keep_running := 0\<rparr>,
                     [Log ERROR ''An unknown exception occurred in main.'']))
      else Some (s, []))"

text \<open>The statements after the try block, lines 282 to 303.\<close>

definition shutdown_block :: "main_env \<Rightarrow> app_state \<Rightarrow> app_state \<times> effect list" where
  "shutdown_block env s =
     (case (if publisher_joinable s then
              (s\<lparr>publisher_should_run := False, publisher_joinable := False\<rparr>,
               [Log INFO ''Waiting for MQTT publisher thread to finish...'', Thread_join,
                Log INFO ''MQTT publisher thread finished.''])
            else (s\<lparr>publisher_should_run := False\<rparr>, []))
      of (s1, e1) \<Rightarrow>
          case (if is_streaming (hackrf_handler s1) then
                  (case stop_rx (stop_rx_result env) (hackrf_handler s1) of
                     (r, h, e) \<Rightarrow>
                       (s1\<lparr>hackrf_handler := h\<rparr>, [Log INFO ''Stopping HackRF stream...''] @ e))
                else (s1, []))
          of (s2, e2) \<Rightarrow>
            case deinit (stop_rx_result env) (hackrf_handler s2) of
              (h3, e3) \<Rightarrow>
                (s2\<lparr>hackrf_handler := h3\<rparr>,
                 [Log INFO ''Shutting down...'', Store_publisher_should_run False] @ e1 @ e2 @
                 [Log INFO ''Deinitializing HackRF...''] @ e3 @
                 (if is_connected (mqtt_client s2) then
                    [Log INFO ''Disconnecting from MQTT broker...''] @
                    snd (disconnect_from_broker (disconnect_result env) (mqtt_client s2))
                  else []) @
                 [Log INFO ''HackRF MQTT Transmitter finished.'']))"

text \<open>
  At a return from \<^verbatim>\<open>main\<close> the locals are destroyed, \<^verbatim>\<open>publisher_thread\<close> first (it
  is declared last). The destructor of a \<^verbatim>\<open>std::thread\<close> that is still joinable
  calls \<^verbatim>\<open>std::terminate\<close>: the process is killed and gives no exit code.
\<close>

datatype outcome = Exit int | Std_terminate

definition return_from_main :: "int \<Rightarrow> app_state \<Rightarrow> outcome" where
  "return_from_main code s = (if publisher_joinable s then Std_terminate else Exit code)"

text \<open>
  The result of \<^verbatim>\<open>main\<close>: how the process ends, the return statement taken, the state
  at the point where the statements that lead to this return begin, the effects before
  that point and the effects from there to the return.
\<close>

datatype exit_path =
    Init_failed | Connect_initiation_failed | Connect_timed_out | Start_rx_failed
  | Shutdown_block

record main_result =
  outcome :: outcome
  path :: exit_path
  state_at_exit :: app_state
  run_trace :: "effect list"
  exit_trace :: "effect list"

text \<open>Lines 144 to 205: the objects, the control topic, the publisher thread.\<close>

definition main_setup :: "AppConfig \<Rightarrow> app_state \<times> effect list" where
  "main_setup app_config =
     (\<lparr>keep_running = 1,
       publisher_should_run = True,
       hackrf_should_be_streaming = True,
       hackrf_handler = HackRFHandler_ctor,
       mqtt_client =
         (if control_topic (mqtt app_config) \<noteq> [] then
            fst (set_control_topic (control_topic (mqtt app_config)) (qos (mqtt app_config)) 0
                   MqttClient_ctor)
          else MqttClient_ctor),
       publisher_joinable = True\<rparr>,
      [Log INFO ''IQ Data Queue initialized with max size: ''] @
      (if control_topic (mqtt app_config) \<noteq> [] then
         snd (set_control_topic (control_topic (mqtt app_config)) (qos (mqtt app_config)) 0
                MqttClient_ctor) @
         [Log INFO ''MQTT control enabled. Subscribed to topic: '']
       else []) @
      [Thread_start])"

text \<open>Lines 209 to 224: the device is opened and programmed.\<close>

definition main_init :: "main_env \<Rightarrow> app_state \<Rightarrow> effect list \<Rightarrow> main_result + app_state \<times> effect list" where
  "main_init env s tr =
     (case init (hackrf_init_result env) (hackrf_open_result env)
             (if hackrf_open_nonnull env then Some \<lparr>transfer_active = False\<rparr> else None)
             (hackrf_handler s) of
        (ok, h, e) \<Rightarrow>
          if \<not> ok then
            (case join_publisher (s\<lparr>hackrf_handler := h, publisher_should_run := False\<rparr>) of
               (s', ej) \<Rightarrow>
                 Inl \<lparr>outcome = return_from_main 1 s', path = Init_failed,
                      state_at_exit = s\<lparr>hackrf_handler := h\<rparr>,
                      run_trace = tr @ [Log INFO ''Initializing HackRF...''] @ e,
                      exit_trace = [Log ERROR ''Failed to initialize HackRF.'',
                                    Store_publisher_should_run False] @ ej\<rparr>)
          else
            Inr (s\<lparr>hackrf_handler := h\<rparr>,
                 tr @ [Log INFO ''Initializing HackRF...''] @ e @
                 snd (set_param ''frequency'' (set_frequency_result env) h) @
                 snd (set_param ''sample rate'' (set_sample_rate_result env) h) @
                 snd (set_param ''baseband filter bandwidth''
                        (set_baseband_filter_bandwidth_result env) h) @
                 [Log INFO ''Setting LNA gain to: ''] @
                 snd (set_param ''LNA gain'' (set_lna_gain_result env) h) @
                 [Log INFO ''Setting VGA gain to: ''] @
                 snd (set_param ''VGA gain'' (set_vga_gain_result env) h)))"

text \<open>Lines 226 to 246: the connection to the broker.\<close>

definition main_connect :: "main_env \<Rightarrow> app_state \<Rightarrow> effect list \<Rightarrow> main_result + app_state \<times> effect list" where
  "main_connect env s tr =
     (case connect_to_broker (loop_start_result env) (connect_async_result env) (mqtt_client s) of
        (ok, e) \<Rightarrow>
          if \<not> ok then
            (case deinit (stop_rx_result env) (hackrf_handler s) of
               (h, ed) \<Rightarrow>
                 Inl \<lparr>outcome = return_from_main 1 (s\<lparr>hackrf_handler := h\<rparr>),
                      path = Connect_initiation_failed,
                      state_at_exit = s,
                      run_trace = tr @ [Log INFO ''Connecting to MQTT broker...''] @ e,
                      exit_trace = [Log ERROR ''Failed to initiate MQTT connection.''] @ ed\<rparr>)
          else
            (case connect_wait (connect_wait_events env) 0 s of
               (s1, ew) \<Rightarrow>
                 if \<not> is_connected (mqtt_client s1) then
                   (case deinit (stop_rx_result env) (hackrf_handler s1) of
                      (h, ed) \<Rightarrow>
                        case join_publisher
                               (s1\<lparr>hackrf_handler := h, publisher_should_run := False\<rparr>) of
                          (s2, ej) \<Rightarrow>
                            Inl \<lparr>outcome = return_from_main 1 s2, path = Connect_timed_out,
                                 state_at_exit = s1,
                                 run_trace =
                                   tr @ [Log INFO ''Connecting to MQTT broker...''] @ e @ ew,
                                 exit_trace =
                                   [Log ERROR ''MQTT connection timed out or failed.''] @ ed @
                                   [Store_publisher_should_run False] @ ej\<rparr>)
                 else Inr (s1, tr @ [Log INFO ''Connecting to MQTT broker...''] @ e @ ew)))"

text \<open>Lines 248 to 261: the first start of the stream.\<close>

definition main_start :: "main_env \<Rightarrow> app_state \<Rightarrow> effect list \<Rightarrow> main_result + app_state \<times> effect list" where
  "main_start env s tr =
     (if hackrf_should_be_streaming s then
        (case start_rx (Some iq_data_queue_addr) (start_rx_result env) (hackrf_handler s) of
           (ok, h, e) \<Rightarrow>
             if \<not> ok then
               (case deinit (stop_rx_result env) h of
                  (h', ed) \<Rightarrow>
                    case join_publisher
                           (s\<lparr>hackrf_handler := h', publisher_should_run := False\<rparr>) of
                      (s2, ej) \<Rightarrow>
                        Inl \<lparr>outcome = return_from_main 1 s2, path = Start_rx_failed,
                             state_at_exit = s\<lparr>hackrf_handler := h\<rparr>,
                             run_trace =
                               tr @ [Log INFO ''Attempting to start HackRF stream initially...''] @ e,
                             exit_trace =
                               [Log ERROR ''Failed to start HackRF stream initially.''] @
                               (if is_connected (mqtt_client s) then
                                  snd (disconnect_from_broker (disconnect_result env) (mqtt_client s))
                                else []) @
                               ed @ [Store_publisher_should_run False] @ ej\<rparr>)
             else
               Inr (s\<lparr>hackrf_handler := h\<rparr>,
                    tr @ [Log INFO ''Attempting to start HackRF stream initially...''] @ e @
                    [Log INFO ''HackRF stream started. Send 'PAUSE'/'RESUME' to '']))
      else
        Inr (s, tr @ [Log INFO ''Attempting to start HackRF stream initially...'',
                      Log INFO ''HackRF initially set to not stream.'']))"

definition main :: "AppConfig \<Rightarrow> main_env \<Rightarrow> main_result option" where
  "main app_config env =
     (case main_setup app_config of
        (s0, tr0) \<Rightarrow>
          case main_init env s0 tr0 of
            Inl r \<Rightarrow> Some r
          | Inr (s1, tr1) \<Rightarrow>
              case main_connect env s1 tr1 of
                Inl r \<Rightarrow> Some r
              | Inr (s2, tr2) \<Rightarrow>
                  case main_start env s2 tr2 of
                    Inl r \<Rightarrow> Some r
                  | Inr (s3, tr3) \<Rightarrow>
                      case supervisory_loop (supervise env) s3 of
                        None \<Rightarrow> None
                      | Some (s4, e4) \<Rightarrow>
                          Some \<lparr>outcome = return_from_main 0 (fst (shutdown_block env s4)),
                                path = Shutdown_block,
                                state_at_exit = s4,
                                run_trace = tr3 @ e4,
                                exit_trace = snd (shutdown_block env s4)\<rparr>)"

subsection \<open>The steps of the shutdown sequence in a trace\<close>







subsection \<open>States and inputs used as examples\<close>

definition paused_state :: app_state where
  "paused_state =
     \<lparr>keep_running = 1, publisher_should_run = True, hackrf_should_be_streaming = False,
      hackrf_handler = \<lparr>device = Some \<lparr>transfer_active = False\<rparr>, streaming = False,
                        rx_callback_context = None\<rparr>,
      mqtt_client = MqttClient_ctor, publisher_joinable = True\<rparr>"


definition example_mqtt_config :: MqttConfig where
  "example_mqtt_config =
     \<lparr>topic = ''usv/signals/hackrf_raw_iq'', control_topic = ''usv/hackrf/control'', qos = 0\<rparr>"

definition disconnected_pass :: iteration_input where
  "disconnected_pass =
     \<lparr>wake_sched = [], wake_final = [], client = MqttClient_ctor, publish_rc = 0\<rparr>"

definition failing_pass :: iteration_input where
  "failing_pass =
     \<lparr>wake_sched = [], wake_final = [], client = MqttClient_ctor\<lparr>connected_flag := True\<rparr>,
      publish_rc = 14\<rparr>"

definition one_chunk_queue :: "chunk ThreadSafeQueue" where
  "one_chunk_queue = \<lparr>queue = [ [1, 2] ], maxsize = 4\<rparr>"









section \<open>Properties of the queue\<close>

lemma interfere_append: "interfere (a @ b) q = interfere b (interfere a q)"
  by (induction a arbitrary: q) simp_all

lemma wait_and_pop_Nil:
  "wait_and_pop [] q = (if queue q = [] then None else Some (hd (queue q), q\<lparr>queue := tl (queue q)\<rparr>))"
  by (simp add: wait_and_pop_def)

lemma wait_for_and_pop_Nil:
  "wait_for_and_pop [] [] q = try_pop q"
  by (simp add: wait_for_and_pop_def try_pop_def)

lemma pop_with_eq: "pop_with k q = try_pop q"
  by (cases k) (simp_all add: wait_and_pop_Nil wait_for_and_pop_Nil try_pop_def)

lemma exec_op_maxsize: "maxsize (exec_op op q) = maxsize q"
  by (cases op) (auto simp: push_def try_push_def wait_and_pop_Nil wait_for_and_pop_Nil try_pop_def split: prod.splits)

lemma exec_op_bounded:
  "0 < maxsize q \<Longrightarrow> length (queue q) \<le> maxsize q \<Longrightarrow> length (queue (exec_op op q)) \<le> maxsize q"
  by (cases op) (auto simp: push_def try_push_def wait_and_pop_Nil wait_for_and_pop_Nil try_pop_def split: prod.splits)

lemma run_ops_maxsize: "maxsize (run_ops ops q) = maxsize q"
  by (induction ops arbitrary: q) (simp_all add: exec_op_maxsize)

lemma run_ops_bounded:
  "0 < maxsize q \<Longrightarrow> length (queue q) \<le> maxsize q \<Longrightarrow> length (queue (run_ops ops q)) \<le> maxsize q"
proof (induction ops arbitrary: q)
  case Nil
  then show ?case by simp
next
  case (Cons op ops)
  have "length (queue (run_ops ops (exec_op op q))) \<le> maxsize (exec_op op q)"
    using Cons.prems by (intro Cons.IH) (simp_all add: exec_op_maxsize exec_op_bounded)
  then show ?case by (simp add: exec_op_maxsize)
qed

lemma run_ops_pushes_unbounded:
  "maxsize q = 0 \<Longrightarrow> queue (run_ops (map TryPush xs) q) = queue q @ xs"
  by (induction xs arbitrary: q) (simp_all add: try_push_def)

text \<open>
  Claim C1. In a queue constructed with capacity \<open>C > 0\<close> and reached by any history of
  offers and pops, the size is at most \<open>C\<close>; \<open>try_push\<close> on \<open>C\<close> items returns false and
  leaves the queue as it is, and otherwise appends the chunk at the back and returns
  true. With capacity 0 every \<open>try_push\<close> succeeds, and offering any list of chunks
  to the new queue gives a queue of that length: no bound is enforced.
\<close>

theorem try_push_bounded:
  "(0 < C \<longrightarrow>
      length (queue (run_ops ops (ThreadSafeQueue_ctor C))) \<le> C \<and>
      (length (queue (run_ops ops (ThreadSafeQueue_ctor C))) = C \<longrightarrow>
         try_push v (run_ops ops (ThreadSafeQueue_ctor C)) = (False, run_ops ops (ThreadSafeQueue_ctor C))) \<and>
      (length (queue (run_ops ops (ThreadSafeQueue_ctor C))) \<noteq> C \<longrightarrow>
         try_push v (run_ops ops (ThreadSafeQueue_ctor C)) =
           (True, (run_ops ops (ThreadSafeQueue_ctor C))
                     \<lparr>queue := queue (run_ops ops (ThreadSafeQueue_ctor C)) @ [v]\<rparr>))) \<and>
   try_push v (run_ops ops (ThreadSafeQueue_ctor 0)) =
     (True, (run_ops ops (ThreadSafeQueue_ctor 0))
               \<lparr>queue := queue (run_ops ops (ThreadSafeQueue_ctor 0)) @ [v]\<rparr>) \<and>
   length (queue (run_ops (map TryPush xs) (ThreadSafeQueue_ctor 0))) = length xs"
proof -
  let ?q = "run_ops ops (ThreadSafeQueue_ctor C)"
  have m: "maxsize ?q = C" by (simp add: run_ops_maxsize ThreadSafeQueue_ctor_def)
  have b: "0 < C \<Longrightarrow> length (queue ?q) \<le> C"
    using run_ops_bounded [of "ThreadSafeQueue_ctor C" ops]
    by (simp add: ThreadSafeQueue_ctor_def)
  have m0: "maxsize (run_ops ops (ThreadSafeQueue_ctor 0)) = 0"
    by (simp add: run_ops_maxsize ThreadSafeQueue_ctor_def)
  have u: "queue (run_ops (map TryPush xs) (ThreadSafeQueue_ctor 0)) = xs"
    using run_ops_pushes_unbounded [of "ThreadSafeQueue_ctor 0" xs]
    by (simp add: ThreadSafeQueue_ctor_def)
  show ?thesis
    using m b m0 u by (auto simp: try_push_def)
qed


lemma offers_all_true:
  "fst (offers xs q) = replicate (length xs) True \<Longrightarrow> queue (snd (offers xs q)) = queue q @ xs"
proof (induction xs arbitrary: q)
  case Nil
  then show ?case by simp
next
  case (Cons x xs)
  obtain ok q' where p: "try_push x q = (ok, q')" by (cases "try_push x q")
  with Cons.prems have ok: "ok" and rest: "fst (offers xs q') = replicate (length xs) True"
    by (auto split: prod.splits)
  from p ok have q': "queue q' = queue q @ [x]"
    by (auto simp: try_push_def split: if_splits)
  from Cons.IH [OF rest] p q' show ?case
    by (cases "offers xs q'") simp
qed

lemma pops_all: "n = length (queue q) \<Longrightarrow> fst (pops k n q) = map Some (queue q)"
proof (induction n arbitrary: q)
  case 0
  then show ?case by simp
next
  case (Suc n)
  then obtain x xs where q: "queue q = x # xs" by (cases "queue q") auto
  with Suc.prems have n: "n = length (queue (q\<lparr>queue := xs\<rparr>))" by simp
  from Suc.IH [OF n] q show ?case
    by (cases "pops k n (q\<lparr>queue := xs\<rparr>)") (simp add: pop_with_eq try_pop_def)
qed

text \<open>
  Claim C2. When every offer of the chunks \<open>xs\<close> returned true, popping as many times as
  there are chunks (with any of the three pop methods) returns them in the order of
  the offers: from a new queue exactly \<open>xs\<close>, from a queue that held \<open>ys\<close> the list
  \<open>ys @ xs\<close>. The trace of the capacity 2 scenario holds for any chunks \<open>a\<close>, \<open>b\<close>, \<open>c\<close>.
\<close>

theorem fifo_preservation:
  "(fst (offers xs (ThreadSafeQueue_ctor C)) = replicate (length xs) True \<longrightarrow>
      fst (pops k (length xs) (snd (offers xs (ThreadSafeQueue_ctor C)))) = map Some xs) \<and>
   (fst (offers xs q) = replicate (length xs) True \<longrightarrow>
      fst (pops k (length (queue q) + length xs) (snd (offers xs q))) = map Some (queue q @ xs)) \<and>
   try_push a (ThreadSafeQueue_ctor 2) = (True, \<lparr>queue = [a], maxsize = 2\<rparr>) \<and>
   try_push b \<lparr>queue = [a], maxsize = 2\<rparr> = (True, \<lparr>queue = [a, b], maxsize = 2\<rparr>) \<and>
   try_push c \<lparr>queue = [a, b], maxsize = 2\<rparr> = (False, \<lparr>queue = [a, b], maxsize = 2\<rparr>) \<and>
   pop_with k \<lparr>queue = [a, b], maxsize = 2\<rparr> = (Some a, \<lparr>queue = [b], maxsize = 2\<rparr>) \<and>
   try_push c \<lparr>queue = [b], maxsize = 2\<rparr> = (True, \<lparr>queue = [b, c], maxsize = 2\<rparr>) \<and>
   pop_with k \<lparr>queue = [b, c], maxsize = 2\<rparr> = (Some b, \<lparr>queue = [c], maxsize = 2\<rparr>) \<and>
   pop_with k \<lparr>queue = [c], maxsize = 2\<rparr> = (Some c, \<lparr>queue = [], maxsize = 2\<rparr>)"
proof -
  have g: "fst (offers xs q) = replicate (length xs) True \<Longrightarrow>
      fst (pops k (length (queue q) + length xs) (snd (offers xs q))) = map Some (queue q @ xs)" for q :: "'a ThreadSafeQueue"
    using pops_all [of "length (queue q) + length xs" "snd (offers xs q)" k]
    by (simp add: offers_all_true)
  have f: "fst (offers xs (ThreadSafeQueue_ctor C)) = replicate (length xs) True \<Longrightarrow>
      fst (pops k (length xs) (snd (offers xs (ThreadSafeQueue_ctor C)))) = map Some xs"
    using g [of "ThreadSafeQueue_ctor C"] by (simp add: ThreadSafeQueue_ctor_def)
  show ?thesis
    using f g [of q] by (simp add: pop_with_eq try_pop_def try_push_def ThreadSafeQueue_ctor_def)
qed

lemma cv_wait_for_result:
  "cv_wait_for sched final q =
     (queue (interfere (observed sched final q) q) \<noteq> [], interfere (observed sched final q) q)"
  by (induction sched arbitrary: q) (simp_all add: interfere_append)

lemma observed_prefix: "\<exists>rest. concat sched @ final = observed sched final q @ rest"
  by (induction sched arbitrary: q) auto

lemma observed_quiet: "observed (replicate n []) [] q = []"
  by (induction n) simp_all

text \<open>
  Claim C8. When \<open>wait_for_and_pop\<close> returns the empty result, the queue it leaves is
  the queue it found changed by the operations of the other threads only, and that
  queue is empty; with no operation of another thread the queue is unchanged. When
  the queue holds an item as the wait ends, the call returns the front item and
  leaves the rest. The operations counted are a prefix of the schedule.
\<close>

theorem wait_for_and_pop_timeout:
  "(fst (wait_for_and_pop sched final q) = None \<longrightarrow>
      queue (interfere (observed sched final q) q) = [] \<and>
      snd (wait_for_and_pop sched final q) = interfere (observed sched final q) q) \<and>
   (fst (wait_for_and_pop (replicate n []) [] q) = None \<longrightarrow>
      snd (wait_for_and_pop (replicate n []) [] q) = q) \<and>
   (queue (interfere (observed sched final q) q) \<noteq> [] \<longrightarrow>
      wait_for_and_pop sched final q =
        (Some (hd (queue (interfere (observed sched final q) q))),
         (interfere (observed sched final q) q)
            \<lparr>queue := tl (queue (interfere (observed sched final q) q))\<rparr>)) \<and>
   (\<exists>rest. concat sched @ final = observed sched final q @ rest)"
  using observed_prefix [of sched final q]
  by (simp add: wait_for_and_pop_def cv_wait_for_result observed_quiet)

theorem try_push_bounded_witness:
  "(0::nat) < 2 \<and> length (queue (run_ops [TryPush (1::nat), TryPush 2, TryPush 3, TryPop, Push 4]
       (ThreadSafeQueue_ctor 2))) = 2 \<and>
   try_push (5::nat) (run_ops [TryPush 1, TryPush 2, TryPush 3, TryPop, Push 4] (ThreadSafeQueue_ctor 2))
     = (False, \<lparr>queue = [2, 4], maxsize = 2\<rparr>) \<and>
   length (queue (run_ops [TryPush (1::nat)] (ThreadSafeQueue_ctor 2))) \<noteq> 2 \<and>
   try_push (5::nat) (run_ops [TryPush 1] (ThreadSafeQueue_ctor 2)) = (True, \<lparr>queue = [1, 5], maxsize = 2\<rparr>)"
  using try_push_bounded [of 2 "[TryPush (1::nat), TryPush 2, TryPush 3, TryPop, Push 4]" 5 "[]"]
    try_push_bounded [of 2 "[TryPush (1::nat)]" 5 "[]"]
  by (simp add: ThreadSafeQueue_ctor_def try_push_def try_pop_def push_def)

theorem fifo_preservation_witness:
  "fst (offers [10, 20, 30::nat] (ThreadSafeQueue_ctor 3))
     = replicate (length [10, 20, 30::nat]) True \<and>
   fst (pops Timed (length [10, 20, 30::nat]) (snd (offers [10, 20, 30::nat] (ThreadSafeQueue_ctor 3))))
     = map Some [10, 20, 30::nat]"
proof -
  have h: "fst (offers [10, 20, 30::nat] (ThreadSafeQueue_ctor 3))
             = replicate (length [10, 20, 30::nat]) True"
    by (simp add: ThreadSafeQueue_ctor_def try_push_def)
  have "fst (pops Timed (length [10, 20, 30::nat])
               (snd (offers [10, 20, 30::nat] (ThreadSafeQueue_ctor 3))))
          = map Some [10, 20, 30::nat]"
    by (rule fifo_preservation [THEN conjunct1, rule_format, OF h])
  with h show ?thesis by (rule conjI)
qed

theorem wait_for_and_pop_timeout_witness:
  "fst (wait_for_and_pop [ [EnvPush (7::nat), EnvPop] ] [] (ThreadSafeQueue_ctor 2)) = None \<and>
   snd (wait_for_and_pop [ [EnvPush (7::nat), EnvPop] ] [] (ThreadSafeQueue_ctor 2)) = ThreadSafeQueue_ctor 2 \<and>
   fst (wait_for_and_pop [ [], [] ] [] (ThreadSafeQueue_ctor 2 :: nat ThreadSafeQueue)) = None \<and>
   wait_for_and_pop [ [], [EnvPush (7::nat), EnvPush 8] ] [EnvPush 9] (ThreadSafeQueue_ctor 2)
     = (Some 7, \<lparr>queue = [8], maxsize = 2\<rparr>)"
  using wait_for_and_pop_timeout [of "[ [EnvPush (7::nat), EnvPop] ]" "[]" "ThreadSafeQueue_ctor 2" 2]
    wait_for_and_pop_timeout [of "[ [], [EnvPush (7::nat), EnvPush 8] ]" "[EnvPush 9]" "ThreadSafeQueue_ctor 2" 2]
  by (simp add: ThreadSafeQueue_ctor_def try_push_def try_pop_def wait_for_and_pop_def numeral_2_eq_2)

section \<open>Properties of the handler, the callback and the control dispatcher\<close>

text \<open>
  Claim C10. When the device is open and the streaming flag is set, \<open>stop_rx\<close> calls
  \<^verbatim>\<open>hackrf_stop_rx\<close> and the streaming flag is false afterwards, whatever the result
  of the call; \<open>stop_rx\<close> returns false when the call fails and true when it succeeds.
\<close>

theorem stop_rx_clears_streaming:
  "device h \<noteq> None \<and> streaming h \<longrightarrow>
     \<not> streaming (fst (snd (stop_rx result h))) \<and>
     Call Hackrf_stop_rx \<in> set (snd (snd (stop_rx result h))) \<and>
     (result \<noteq> HACKRF_SUCCESS \<longrightarrow> \<not> fst (stop_rx result h)) \<and>
     (result = HACKRF_SUCCESS \<longrightarrow> fst (stop_rx result h))"
  by (cases "result = HACKRF_SUCCESS") (auto simp: stop_rx_def)

theorem stop_rx_clears_streaming_witness:
  "\<not> streaming (fst (snd (stop_rx (- 1)
       \<lparr>device = Some \<lparr>transfer_active = True\<rparr>, streaming = True, rx_callback_context = Some 1\<rparr>))) \<and>
   \<not> fst (stop_rx (- 1)
       \<lparr>device = Some \<lparr>transfer_active = True\<rparr>, streaming = True, rx_callback_context = Some 1\<rparr>)"
  using stop_rx_clears_streaming [of
      "\<lparr>device = Some \<lparr>transfer_active = True\<rparr>, streaming = True, rx_callback_context = Some 1\<rparr>" "- 1"]
  by (simp add: HACKRF_SUCCESS_def)

text \<open>
  Claim C3. The capture callback returns \<open>-1\<close> exactly when \<open>keep_running\<close> is 0, and 0
  otherwise. With the flag set and a valid length of zero it pushes nothing and logs
  nothing. When \<open>try_push\<close> rejects the chunk, the queue is as it was, a warning is
  logged and the callback returns 0.
\<close>

theorem hackrf_rx_callback_signal:
  "(fst (hackrf_rx_callback kr t) = - 1 \<longleftrightarrow> kr = 0) \<and>
   (kr \<noteq> 0 \<longrightarrow> fst (hackrf_rx_callback kr t) = 0) \<and>
   (kr \<noteq> 0 \<and> valid_length t = 0 \<longrightarrow> hackrf_rx_callback kr t = (0, rx_ctx t, [])) \<and>
   (kr \<noteq> 0 \<and> rx_ctx t = Some q \<and> 0 < valid_length t \<and>
    \<not> fst (try_push (take (nat (valid_length t)) (buffer t)) q) \<longrightarrow>
      hackrf_rx_callback kr t =
        (0, Some q, [Log WARNING ''IQ data queue full, discarding data chunk of size '']))"
  by (auto simp: hackrf_rx_callback_def try_push_def split: option.splits prod.splits)

theorem hackrf_rx_callback_signal_witness:
  "hackrf_rx_callback 1 \<lparr>buffer = [1, 2, 3], valid_length = 0,
       rx_ctx = Some \<lparr>queue = [], maxsize = 1\<rparr>\<rparr> = (0, Some \<lparr>queue = [], maxsize = 1\<rparr>, []) \<and>
   \<not> fst (try_push (take (nat 2) [1, 2, 3]) \<lparr>queue = [ [9 :: 8 word] ], maxsize = 1\<rparr>) \<and>
   hackrf_rx_callback 1 \<lparr>buffer = [1, 2, 3], valid_length = 2,
       rx_ctx = Some \<lparr>queue = [ [9] ], maxsize = 1\<rparr>\<rparr> =
     (0, Some \<lparr>queue = [ [9] ], maxsize = 1\<rparr>,
      [Log WARNING ''IQ data queue full, discarding data chunk of size ''])"
  using hackrf_rx_callback_signal [of 1 "\<lparr>buffer = [1, 2, 3], valid_length = 0,
       rx_ctx = Some \<lparr>queue = [], maxsize = 1\<rparr>\<rparr>" "\<lparr>queue = [], maxsize = 1\<rparr>"]
    hackrf_rx_callback_signal [of 1 "\<lparr>buffer = [1, 2, 3], valid_length = 2,
       rx_ctx = Some \<lparr>queue = [ [9] ], maxsize = 1\<rparr>\<rparr>" "\<lparr>queue = [ [9] ], maxsize = 1\<rparr>"]
  by (simp add: try_push_def)


lemma resume_call_made:
  "Call Hackrf_start_rx \<in> set (snd (control_command_handler ''RESUME'' rc qa s)) \<Longrightarrow>
     \<not> hackrf_should_be_streaming s \<and> \<not> is_streaming (hackrf_handler s) \<and>
     \<not> streaming (hackrf_handler s) \<and> device (hackrf_handler s) \<noteq> None"
  by (auto simp: control_command_handler_def start_rx_def split: if_splits option.splits)

text \<open>
  Claim C4. When a RESUME command leads to the call of \<^verbatim>\<open>hackrf_start_rx\<close> and the
  call fails, the expected-streaming flag stays false, neither the handler nor the
  device streams, the error is logged, \<^verbatim>\<open>hackrf_start_rx\<close> has been called once, and
  a later RESUME for which the call succeeds sets the flag and starts the stream.
\<close>

theorem resume_failure_keeps_paused:
  "rc \<noteq> HACKRF_SUCCESS \<and>
   Call Hackrf_start_rx \<in> set (snd (control_command_handler ''RESUME'' rc qa s)) \<longrightarrow>
     \<not> hackrf_should_be_streaming (fst (control_command_handler ''RESUME'' rc qa s)) \<and>
     \<not> streaming (hackrf_handler (fst (control_command_handler ''RESUME'' rc qa s))) \<and>
     \<not> is_streaming (hackrf_handler (fst (control_command_handler ''RESUME'' rc qa s))) \<and>
     Log ERROR ''Failed to resume HackRF stream via MQTT command.''
       \<in> set (snd (control_command_handler ''RESUME'' rc qa s)) \<and>
     length (filter (\<lambda>e. e = Call Hackrf_start_rx)
               (snd (control_command_handler ''RESUME'' rc qa s))) = 1 \<and>
     hackrf_should_be_streaming
       (fst (control_command_handler ''RESUME'' HACKRF_SUCCESS qa
               (fst (control_command_handler ''RESUME'' rc qa s)))) \<and>
     is_streaming (hackrf_handler
       (fst (control_command_handler ''RESUME'' HACKRF_SUCCESS qa
               (fst (control_command_handler ''RESUME'' rc qa s)))))"
proof (intro impI, elim conjE)
  assume rc: "rc \<noteq> HACKRF_SUCCESS"
    and call: "Call Hackrf_start_rx \<in> set (snd (control_command_handler ''RESUME'' rc qa s))"
  from resume_call_made [OF call] obtain d where
    st: "\<not> hackrf_should_be_streaming s" "\<not> is_streaming (hackrf_handler s)"
        "\<not> streaming (hackrf_handler s)" "device (hackrf_handler s) = Some d"
    by auto
  from st rc have first: "control_command_handler ''RESUME'' rc qa s =
      (s\<lparr>hackrf_handler := (hackrf_handler s)\<lparr>rx_callback_context := Some qa\<rparr>\<rparr>,
       [Log INFO ''Control command received: '',
        Log INFO ''Resuming HackRF stream via MQTT command.'',
        Call Hackrf_start_rx, Log ERROR ''Failed to start RX streaming: '',
        Log ERROR ''Failed to resume HackRF stream via MQTT command.''])"
    by (simp add: control_command_handler_def start_rx_def)
  from st show "\<not> hackrf_should_be_streaming (fst (control_command_handler ''RESUME'' rc qa s)) \<and>
     \<not> streaming (hackrf_handler (fst (control_command_handler ''RESUME'' rc qa s))) \<and>
     \<not> is_streaming (hackrf_handler (fst (control_command_handler ''RESUME'' rc qa s))) \<and>
     Log ERROR ''Failed to resume HackRF stream via MQTT command.''
       \<in> set (snd (control_command_handler ''RESUME'' rc qa s)) \<and>
     length (filter (\<lambda>e. e = Call Hackrf_start_rx)
               (snd (control_command_handler ''RESUME'' rc qa s))) = 1 \<and>
     hackrf_should_be_streaming
       (fst (control_command_handler ''RESUME'' HACKRF_SUCCESS qa
               (fst (control_command_handler ''RESUME'' rc qa s)))) \<and>
     is_streaming (hackrf_handler
       (fst (control_command_handler ''RESUME'' HACKRF_SUCCESS qa
               (fst (control_command_handler ''RESUME'' rc qa s)))))"
    unfolding first
    by (simp add: control_command_handler_def start_rx_def is_streaming_def)
qed

theorem resume_failure_keeps_paused_witness:
  "(- 1) \<noteq> HACKRF_SUCCESS \<and>
   Call Hackrf_start_rx \<in> set (snd (control_command_handler ''RESUME'' (- 1) 1 paused_state)) \<and>
   \<not> hackrf_should_be_streaming (fst (control_command_handler ''RESUME'' (- 1) 1 paused_state)) \<and>
   hackrf_should_be_streaming
       (fst (control_command_handler ''RESUME'' HACKRF_SUCCESS 1
               (fst (control_command_handler ''RESUME'' (- 1) 1 paused_state))))"
proof -
  have h: "(- 1) \<noteq> HACKRF_SUCCESS \<and>
   Call Hackrf_start_rx \<in> set (snd (control_command_handler ''RESUME'' (- 1) 1 paused_state))"
    by (simp add: HACKRF_SUCCESS_def control_command_handler_def start_rx_def is_streaming_def
        paused_state_def)
  from resume_failure_keeps_paused [rule_format, OF h] h show ?thesis by simp
qed




lemma started_handler_start_rx:
  "start_rx (Some iq_data_queue_addr) HACKRF_SUCCESS
     \<lparr>device = Some \<lparr>transfer_active = False\<rparr>, streaming = False, rx_callback_context = None\<rparr>
   = (True, started_handler, [Call Hackrf_start_rx, Log INFO ''HackRF RX streaming started.''])"
  by (simp add: start_rx_def started_handler_def)




section \<open>Properties of the consumer\<close>

lemma cv_wait_for_quiet: "concat sched = [] \<Longrightarrow> cv_wait_for sched [] q = (queue q \<noteq> [], q)"
  by (induction sched arbitrary: q) auto

lemma wait_for_and_pop_quiet:
  "concat sched = [] \<Longrightarrow> \<exists>k. queue (snd (wait_for_and_pop sched [] q)) = drop k (queue q)"
proof -
  assume c: "concat sched = []"
  show ?thesis
  proof (cases "queue q = []")
    case True
    with c show ?thesis by (simp add: wait_for_and_pop_def cv_wait_for_quiet)
  next
    case False
    with c have "queue (snd (wait_for_and_pop sched [] q)) = drop 1 (queue q)"
      by (simp add: wait_for_and_pop_def cv_wait_for_quiet drop_Suc)
    then show ?thesis ..
  qed
qed

lemma publisher_iteration_queue:
  "fst (publisher_iteration cfg i q) = snd (wait_for_and_pop (wake_sched i) (wake_final i) q)"
  by (simp add: publisher_iteration_def split: prod.splits option.splits)

lemma publisher_iteration_no_publish:
  "\<not> is_connected (client i) \<Longrightarrow> Call (Mosq_publish t p qs r) \<notin> set (snd (publisher_iteration cfg i q))"
  by (simp add: publisher_iteration_def split: prod.splits option.splits)

lemma publisher_loop_no_publish:
  "publisher_loop cfg sched q = Some (qf, ef) \<Longrightarrow>
   \<forall>x \<in> set sched. \<not> is_connected (client (snd x)) \<Longrightarrow>
   Call (Mosq_publish t p qs r) \<notin> set ef"
proof (induction sched arbitrary: q qf ef)
  case Nil
  then show ?case by simp
next
  case (Cons x sched)
  obtain b i where x: "x = (b, i)" by (cases x)
  show ?case
  proof (cases b)
    case False
    with Cons.prems x show ?thesis by simp
  next
    case True
    obtain q1 e1 where it: "publisher_iteration cfg i q = (q1, e1)"
      by (cases "publisher_iteration cfg i q")
    with Cons.prems(1) x True obtain e2 where
      rest: "publisher_loop cfg sched q1 = Some (qf, e2)" and ef: "ef = e1 @ e2"
      by (auto split: option.splits)
    from Cons.prems(2) x have "\<not> is_connected (client i)" by simp
    from publisher_iteration_no_publish [OF this, of t p qs r cfg q] it
    have "Call (Mosq_publish t p qs r) \<notin> set e1" by simp
    moreover from Cons.IH [OF rest] Cons.prems(2)
    have "Call (Mosq_publish t p qs r) \<notin> set e2" by simp
    ultimately show ?thesis by (simp add: ef)
  qed
qed

lemma publisher_loop_quiet:
  "publisher_loop cfg sched q = Some (qf, ef) \<Longrightarrow>
   \<forall>x \<in> set sched. concat (wake_sched (snd x)) = [] \<and> wake_final (snd x) = [] \<Longrightarrow>
   \<exists>k. queue qf = drop k (queue q)"
proof (induction sched arbitrary: q qf ef)
  case Nil
  then show ?case by simp
next
  case (Cons x sched)
  obtain b i where x: "x = (b, i)" by (cases x)
  show ?case
  proof (cases b)
    case False
    with Cons.prems x have "queue qf = drop 0 (queue q)" by simp
    then show ?thesis ..
  next
    case True
    obtain q1 e1 where it: "publisher_iteration cfg i q = (q1, e1)"
      by (cases "publisher_iteration cfg i q")
    with Cons.prems(1) x True obtain e2 where
      rest: "publisher_loop cfg sched q1 = Some (qf, e2)"
      by (auto split: option.splits)
    from Cons.prems(2) x have qi: "concat (wake_sched i) = []" "wake_final i = []" by simp_all
    from publisher_iteration_queue [of cfg i q] it qi
    have "q1 = snd (wait_for_and_pop (wake_sched i) [] q)" by simp
    with wait_for_and_pop_quiet [OF qi(1), of q] obtain k1 where
      k1: "queue q1 = drop k1 (queue q)" by auto
    from Cons.IH [OF rest] Cons.prems(2) obtain k2 where "queue qf = drop k2 (queue q1)"
      by auto
    with k1 have "queue qf = drop (k2 + k1) (queue q)" by simp
    then show ?thesis ..
  qed
qed

text \<open>
  Claim C7. In a pass of the consumer loop that pops a chunk while the client is not
  connected, the chunk leaves the queue, no publish call is made, and the one log call
  is at level DEBUG, the lowest level. In a pass that pops a chunk while connected and
  whose publish call fails, the error is logged, the publish call is made once and the
  queue is left as the pop left it. In every pass the queue after the pass is the queue
  after the pop: the consumer pushes nothing. Over the whole run of the thread: no
  publish call when the client is never connected, and, when no other thread touches
  the queue, the final queue is the initial one with chunks removed from the front.
\<close>

theorem publisher_drops_without_retry:
  "(wait_for_and_pop (wake_sched i) (wake_final i) q = (Some ch, q') \<and>
    \<not> is_connected (client i) \<longrightarrow>
      publisher_iteration cfg i q =
        (q', [Log DEBUG ''MQTT not connected in publisher thread, discarding data chunk if any was popped.'']) \<and>
      level_rank DEBUG \<le> level_rank l) \<and>
   (wait_for_and_pop (wake_sched i) (wake_final i) q = (Some ch, q') \<and>
    is_connected (client i) \<and> publish_rc i \<noteq> MOSQ_ERR_SUCCESS \<longrightarrow>
      fst (publisher_iteration cfg i q) = q' \<and>
      Log ERROR ''MQTT Publish error in publisher thread: ''
        \<in> set (snd (publisher_iteration cfg i q)) \<and>
      length (filter (\<lambda>e. e = Call (Mosq_publish (topic cfg) ch (qos cfg) False))
                (snd (publisher_iteration cfg i q))) = 1) \<and>
   fst (publisher_iteration cfg i q) = snd (wait_for_and_pop (wake_sched i) (wake_final i) q) \<and>
   (mqtt_publisher_thread_func cfg sched q = Some (qf, ef) \<and>
    (\<forall>x \<in> set sched. \<not> is_connected (client (snd x))) \<longrightarrow>
      Call (Mosq_publish t p qs r) \<notin> set ef) \<and>
   (mqtt_publisher_thread_func cfg sched q = Some (qf, ef) \<and>
    (\<forall>x \<in> set sched. concat (wake_sched (snd x)) = [] \<and> wake_final (snd x) = []) \<longrightarrow>
      (\<exists>k. queue qf = drop k (queue q)))"
proof (intro conjI impI)
  assume "wait_for_and_pop (wake_sched i) (wake_final i) q = (Some ch, q') \<and>
    \<not> is_connected (client i)"
  then show "publisher_iteration cfg i q =
        (q', [Log DEBUG ''MQTT not connected in publisher thread, discarding data chunk if any was popped.''])"
    by (simp add: publisher_iteration_def)
next
  show "level_rank DEBUG \<le> level_rank l" by simp
next
  assume a: "wait_for_and_pop (wake_sched i) (wake_final i) q = (Some ch, q') \<and>
    is_connected (client i) \<and> publish_rc i \<noteq> MOSQ_ERR_SUCCESS"
  then show "fst (publisher_iteration cfg i q) = q'"
    by (simp add: publisher_iteration_queue)
  from a show "Log ERROR ''MQTT Publish error in publisher thread: ''
        \<in> set (snd (publisher_iteration cfg i q))"
    by (simp add: publisher_iteration_def publish_message_def is_connected_def)
  from a show "length (filter (\<lambda>e. e = Call (Mosq_publish (topic cfg) ch (qos cfg) False))
                (snd (publisher_iteration cfg i q))) = 1"
    by (simp add: publisher_iteration_def publish_message_def is_connected_def)
next
  show "fst (publisher_iteration cfg i q) = snd (wait_for_and_pop (wake_sched i) (wake_final i) q)"
    by (rule publisher_iteration_queue)
next
  assume a: "mqtt_publisher_thread_func cfg sched q = Some (qf, ef) \<and>
    (\<forall>x \<in> set sched. \<not> is_connected (client (snd x)))"
  then obtain e where l: "publisher_loop cfg sched q = Some (qf, e)"
    and ef: "ef = [Log INFO ''MQTT Publisher thread started.''] @ e @
                [Log INFO ''MQTT Publisher thread stopping.'']"
    by (auto simp: mqtt_publisher_thread_func_def split: option.splits)
  from publisher_loop_no_publish [OF l] a have "Call (Mosq_publish t p qs r) \<notin> set e" by simp
  then show "Call (Mosq_publish t p qs r) \<notin> set ef" by (simp add: ef)
next
  assume a: "mqtt_publisher_thread_func cfg sched q = Some (qf, ef) \<and>
    (\<forall>x \<in> set sched. concat (wake_sched (snd x)) = [] \<and> wake_final (snd x) = [])"
  then obtain e where l: "publisher_loop cfg sched q = Some (qf, e)"
    by (auto simp: mqtt_publisher_thread_func_def split: option.splits)
  from publisher_loop_quiet [OF l] a show "\<exists>k. queue qf = drop k (queue q)" by simp
qed


theorem publisher_drops_without_retry_witness:
  "(wait_for_and_pop (wake_sched disconnected_pass) (wake_final disconnected_pass) one_chunk_queue
      = (Some [1, 2], \<lparr>queue = [], maxsize = 4\<rparr>) \<and>
    \<not> is_connected (client disconnected_pass)) \<and>
   publisher_iteration example_mqtt_config disconnected_pass one_chunk_queue =
     (\<lparr>queue = [], maxsize = 4\<rparr>,
      [Log DEBUG ''MQTT not connected in publisher thread, discarding data chunk if any was popped.'']) \<and>
   (wait_for_and_pop (wake_sched failing_pass) (wake_final failing_pass) one_chunk_queue
      = (Some [1, 2], \<lparr>queue = [], maxsize = 4\<rparr>) \<and>
    is_connected (client failing_pass) \<and> publish_rc failing_pass \<noteq> MOSQ_ERR_SUCCESS) \<and>
   fst (publisher_iteration example_mqtt_config failing_pass one_chunk_queue)
     = \<lparr>queue = [], maxsize = 4\<rparr> \<and>
   (mqtt_publisher_thread_func example_mqtt_config
      [(True, disconnected_pass), (False, disconnected_pass)] one_chunk_queue =
      Some (\<lparr>queue = [], maxsize = 4\<rparr>,
            [Log INFO ''MQTT Publisher thread started.'',
             Log DEBUG ''MQTT not connected in publisher thread, discarding data chunk if any was popped.'',
             Log INFO ''MQTT Publisher thread stopping.'']) \<and>
    concat (wake_sched disconnected_pass) = [] \<and> wake_final disconnected_pass = []) \<and>
   Call (Mosq_publish (topic example_mqtt_config) [1, 2] 0 False)
     \<notin> set [Log INFO ''MQTT Publisher thread started.'',
             Log DEBUG ''MQTT not connected in publisher thread, discarding data chunk if any was popped.'',
             Log INFO ''MQTT Publisher thread stopping.''] \<and>
   (\<exists>k. queue \<lparr>queue = ([] :: chunk list), maxsize = 4\<rparr> = drop k (queue one_chunk_queue))"
proof -
  have w: "wait_for_and_pop [] [] one_chunk_queue = (Some [1, 2], \<lparr>queue = [], maxsize = 4\<rparr>)"
    by (simp add: wait_for_and_pop_def one_chunk_queue_def)
  have h1: "wait_for_and_pop (wake_sched disconnected_pass) (wake_final disconnected_pass) one_chunk_queue
      = (Some [1, 2], \<lparr>queue = [], maxsize = 4\<rparr>) \<and>
    \<not> is_connected (client disconnected_pass)"
    by (simp add: w disconnected_pass_def is_connected_def MqttClient_ctor_def)
  have h2: "wait_for_and_pop (wake_sched failing_pass) (wake_final failing_pass) one_chunk_queue
      = (Some [1, 2], \<lparr>queue = [], maxsize = 4\<rparr>) \<and>
    is_connected (client failing_pass) \<and> publish_rc failing_pass \<noteq> MOSQ_ERR_SUCCESS"
    by (simp add: w failing_pass_def is_connected_def MqttClient_ctor_def MOSQ_ERR_SUCCESS_def)
  have it: "publisher_iteration example_mqtt_config disconnected_pass one_chunk_queue =
     (\<lparr>queue = [], maxsize = 4\<rparr>,
      [Log DEBUG ''MQTT not connected in publisher thread, discarding data chunk if any was popped.''])"
    using publisher_drops_without_retry [where i = disconnected_pass and q = one_chunk_queue
        and cfg = example_mqtt_config, THEN conjunct1, rule_format, OF h1]
    by simp
  have h3: "mqtt_publisher_thread_func example_mqtt_config
      [(True, disconnected_pass), (False, disconnected_pass)] one_chunk_queue =
      Some (\<lparr>queue = [], maxsize = 4\<rparr>,
            [Log INFO ''MQTT Publisher thread started.'',
             Log DEBUG ''MQTT not connected in publisher thread, discarding data chunk if any was popped.'',
             Log INFO ''MQTT Publisher thread stopping.''])"
    by (simp add: mqtt_publisher_thread_func_def it)
  have h4: "\<forall>x \<in> set [(True, disconnected_pass), (False, disconnected_pass)].
        concat (wake_sched (snd x)) = [] \<and> wake_final (snd x) = []"
    by (simp add: disconnected_pass_def)
  have h5: "\<forall>x \<in> set [(True, disconnected_pass), (False, disconnected_pass)].
        \<not> is_connected (client (snd x))"
    by (simp add: disconnected_pass_def is_connected_def MqttClient_ctor_def)
  have c2: "fst (publisher_iteration example_mqtt_config failing_pass one_chunk_queue)
     = \<lparr>queue = [], maxsize = 4\<rparr>"
    using publisher_drops_without_retry [where i = failing_pass and q = one_chunk_queue
        and cfg = example_mqtt_config, THEN conjunct2, THEN conjunct1, rule_format, OF h2]
    by simp
  have c5: "\<exists>k. queue \<lparr>queue = ([] :: chunk list), maxsize = 4\<rparr> = drop k (queue one_chunk_queue)"
    using publisher_drops_without_retry [where q = one_chunk_queue
        and cfg = example_mqtt_config
        and sched = "[(True, disconnected_pass), (False, disconnected_pass)]",
        THEN conjunct2, THEN conjunct2, THEN conjunct2, THEN conjunct2, rule_format,
        OF conjI [OF h3 h4] ]
    by simp
  have h6: "concat (wake_sched disconnected_pass) = [] \<and> wake_final disconnected_pass = []"
    by (simp add: disconnected_pass_def)
  have c4: "Call (Mosq_publish (topic example_mqtt_config) [1, 2] 0 False)
     \<notin> set [Log INFO ''MQTT Publisher thread started.'',
             Log DEBUG ''MQTT not connected in publisher thread, discarding data chunk if any was popped.'',
             Log INFO ''MQTT Publisher thread stopping.'']"
    by (rule publisher_drops_without_retry [where q = one_chunk_queue
        and cfg = example_mqtt_config
        and sched = "[(True, disconnected_pass), (False, disconnected_pass)]",
        THEN conjunct2, THEN conjunct2, THEN conjunct2, THEN conjunct1, rule_format,
        OF conjI [OF h3 h5] ])
  from h1 it h2 c2 h3 h6 c4 c5 show ?thesis by blast
qed

section \<open>The shutdown sequence of main\<close>






























lemma connect_initiation_failure_terminates:
  "main_connect env s tr = Inl r \<Longrightarrow> path r = Connect_initiation_failed \<Longrightarrow>
     publisher_joinable s \<Longrightarrow> outcome r = Std_terminate"
  by (auto simp: main_connect_def return_from_main_def split: prod.splits if_splits)





end
